theory Spec2Isabelle
  imports Main "HOL-Library.Sublist"
begin

section \<open>The episode store\<close>

text \<open>
  One row of the episodes table, as the commands of \<^verbatim>\<open>src/p3/cli.py\<close> read it
  (\<^verbatim>\<open>ep['id']\<close>, \<^verbatim>\<open>ep['podcast_title']\<close>, \<^verbatim>\<open>ep['title']\<close>, \<^verbatim>\<open>ep['status']\<close>,
  \<^verbatim>\<open>ep['error_count']\<close>, \<^verbatim>\<open>ep['last_error']\<close>, \<^verbatim>\<open>ep['error_timestamp']\<close>).
  The status is a string, as in the table: the four pipeline values are a subset of what
  the column can hold. Python integers are unbounded, hence \<open>int\<close>.
\<close>

record episode =
  ep_id :: int
  podcast_title :: string
  title :: string
  status :: string
  error_count :: int
  last_error :: "string option"
  error_timestamp :: "string option"

text \<open>
  Modelled from the spec: the class \<^verbatim>\<open>P3Database\<close> of \<^verbatim>\<open>src/p3/database.py\<close> is
  imported by \<^verbatim>\<open>cli.py\<close> but is not among the source files. Its state is the episode
  table of the specification's data model, rows in insertion order, together with the
  informational notes that force-mark-processed records.
\<close>

record p3db =
  episodes :: "episode list"
  note_log :: "(int \<times> string option) list"


text \<open>
  Modelled from the spec: the four values of the status enumeration, which
  \<^verbatim>\<open>set_status\<close> validates its target against.
\<close>

definition valid_statuses :: "string list" where
  "valid_statuses = [''downloaded'', ''transcribed'', ''processed'', ''failed'']"

text \<open>
  Modelled from the spec: \<^verbatim>\<open>get(id) -> Episode | not found\<close>, a point lookup
  (\<^verbatim>\<open>P3Database.get_episode_by_id\<close> is missing).
\<close>

definition get_episode_by_id :: "p3db \<Rightarrow> int \<Rightarrow> episode option" where
  "get_episode_by_id db i = find (\<lambda>e. ep_id e = i) (episodes db)"


text \<open>
  Modelled from the spec: \<^verbatim>\<open>list_errored()\<close>, all episodes with \<^verbatim>\<open>error_count > 0\<close>,
  regardless of their status (\<^verbatim>\<open>P3Database.get_error_episodes\<close> is missing).
\<close>

definition get_error_episodes :: "p3db \<Rightarrow> episode list" where
  "get_error_episodes db = filter (\<lambda>e. 0 < error_count e) (episodes db)"

text \<open>
  A single-row update: the rows with the given id are replaced, all others are kept; an
  id that no row has changes nothing.
\<close>

definition on_episode :: "int \<Rightarrow> (episode \<Rightarrow> episode) \<Rightarrow> p3db \<Rightarrow> p3db" where
  "on_episode i f db = db\<lparr>episodes := map (\<lambda>e. if ep_id e = i then f e else e) (episodes db)\<rparr>"




text \<open>
  Modelled from the spec: force-mark-processed sets \<^verbatim>\<open>status = 'processed'\<close> directly
  and records the reason as an informational note, not as \<^verbatim>\<open>last_error\<close>
  (\<^verbatim>\<open>P3Database.mark_episode_as_processed\<close> is missing).
\<close>

definition mark_episode_as_processed :: "p3db \<Rightarrow> int \<Rightarrow> string option \<Rightarrow> p3db" where
  "mark_episode_as_processed db i reason =
     (on_episode i (\<lambda>e. e\<lparr>status := ''processed''\<rparr>) db)\<lparr>note_log := note_log db @ [(i, reason)]\<rparr>"

section \<open>What a command does: console lines and calls to collaborators\<close>

text \<open>
  A command returns the trace of what it did, in program order, and the store as it
  leaves it. Each \<^verbatim>\<open>console.print\<close> is one constructor of the command's event type,
  carrying the values the message interpolates; calls to collaborators that are not part
  of the store model (the summariser, the summaries query, the file system,
  \<^verbatim>\<open>sys.exit\<close>) are events of the same trace.

  Python truthiness of an optional click value: \<^verbatim>\<open>if episode_id:\<close> is false for
  \<^verbatim>\<open>None\<close> and for \<^verbatim>\<open>0\<close>; \<^verbatim>\<open>elif podcast:\<close> and \<^verbatim>\<open>if date:\<close> are false for
  \<^verbatim>\<open>None\<close> and for the empty string.
\<close>

definition given_int :: "int option \<Rightarrow> int option" where
  "given_int x = (case x of None \<Rightarrow> None | Some i \<Rightarrow> if i = 0 then None else Some i)"

definition given_str :: "string option \<Rightarrow> string option" where
  "given_str x = (case x of None \<Rightarrow> None | Some s \<Rightarrow> if s = [] then None else Some s)"

section \<open>The retry command\<close>




section \<open>The mark-processed command\<close>

datatype mark_event =
    Mark_episode_not_found int
  | Marked_episode int string
  | Reason string
  | No_error_episodes_for string
  | Found_error_episodes nat string
  | Marked_title string
  | Marked_count nat
  | Please_specify_mark

text \<open>
  Python's \<^verbatim>\<open>str.lower\<close> on the ASCII letters (other characters are left as they
  are), and \<^verbatim>\<open>a in b\<close> on strings, which is \<^const>\<open>sublist\<close>: \<open>a\<close> occurs in
  \<open>b\<close> as a contiguous run.
\<close>

definition lower_char :: "char \<Rightarrow> char" where
  "lower_char c =
     (case map_of (zip ''ABCDEFGHIJKLMNOPQRSTUVWXYZ'' ''abcdefghijklmnopqrstuvwxyz'') c of
        Some l \<Rightarrow> l
      | None \<Rightarrow> c)"

definition lower :: "string \<Rightarrow> string" where
  "lower s = map lower_char s"

fun mark_loop ::
  "string option \<Rightarrow> episode list \<Rightarrow> mark_event list \<times> p3db \<Rightarrow> mark_event list \<times> p3db" where
  "mark_loop reason [] st = st"
| "mark_loop reason (ep # eps) (out, db) =
     mark_loop reason eps
       (out @ [Marked_title (title ep)], mark_episode_as_processed db (ep_id ep) reason)"

definition mark_processed ::
  "p3db \<Rightarrow> int option \<Rightarrow> string option \<Rightarrow> string option \<Rightarrow> mark_event list \<times> p3db" where
  "mark_processed db episode_id podcast reason =
     (case given_int episode_id of
        Some i \<Rightarrow>
          (case get_episode_by_id db i of
             None \<Rightarrow> ([Mark_episode_not_found i], db)
           | Some episode \<Rightarrow>
               ([Marked_episode i (title episode)]
                  @ (case given_str reason of Some r \<Rightarrow> [Reason r] | None \<Rightarrow> []),
                mark_episode_as_processed db i reason))
      | None \<Rightarrow>
          (case given_str podcast of
             Some p \<Rightarrow>
               (let error_episodes = get_error_episodes db;
                    podcast_episodes =
                      filter (\<lambda>e. sublist (lower p) (lower (podcast_title e))) error_episodes
                in if podcast_episodes = [] then ([No_error_episodes_for p], db)
                   else (case mark_loop reason podcast_episodes
                                ([Found_error_episodes (length podcast_episodes) p], db) of
                           (out, db') \<Rightarrow> (out @ [Marked_count (length podcast_episodes)], db')))
           | None \<Rightarrow> ([Please_specify_mark], db)))"

section \<open>The errors command\<close>







section \<open>Loading the configuration\<close>

text \<open>
  What \<^verbatim>\<open>load_config\<close> finds at the configuration path: no file, a file that
  cannot be read or parsed, or a configuration. Of the configuration only the export
  formats of the settings are read by the code modelled here. The two failures print and
  leave through \<^verbatim>\<open>sys.exit(1)\<close>.
\<close>

record config =
  export_format :: "string list option"

datatype config_file = Not_found | Unreadable | Loaded config

datatype config_event =
    Config_file_not_found
  | Copy_example_config
  | Error_loading_config
  | Sys_exit nat

definition load_config :: "config_file \<Rightarrow> config_event list + config" where
  "load_config config_file =
     (case config_file of
        Not_found \<Rightarrow> Inl [Config_file_not_found, Copy_example_config, Sys_exit 1]
      | Unreadable \<Rightarrow> Inl [Error_loading_config, Sys_exit 1]
      | Loaded c \<Rightarrow> Inr c)"

section \<open>The digest command\<close>





section \<open>The export and write commands\<close>

text \<open>
  A \<^verbatim>\<open>datetime\<close>, and the collaborators of the two commands that are outside the
  sources: \<^verbatim>\<open>datetime.strptime(date, '%Y-%m-%d')\<close> (\<open>None\<close> when it raises
  \<^verbatim>\<open>ValueError\<close>), \<^verbatim>\<open>datetime.now()\<close>, \<^verbatim>\<open>strftime('%Y-%m-%d')\<close>, the store query
  \<^verbatim>\<open>db.get_summaries_by_date\<close>, the two renderers of \<^verbatim>\<open>DigestExporter\<close>, and the
  blog writer with everything \<^verbatim>\<open>write\<close> does after choosing the primary summary.
\<close>

record datetime =
  year :: int
  month :: int
  day :: int
  seconds_of_day :: int

datatype export_event =
    Export_config config_event
  | Invalid_date_format
  | Get_summaries_by_date datetime
  | No_summaries_found datetime
  | Exporting nat datetime
  | Unsupported_format string
  | Write_file string string
  | Exported string string
  | Run_digest_first
  | Generating_blog_post string
  | Using_summaries nat datetime

record ('s, 'g) collaborators =
  strptime :: "string \<Rightarrow> datetime option"
  now :: datetime
  strftime :: "datetime \<Rightarrow> string"
  get_summaries_by_date :: "datetime \<Rightarrow> 's list"
  export_markdown :: "'s list \<Rightarrow> datetime \<Rightarrow> string"
  export_json :: "'s list \<Rightarrow> datetime \<Rightarrow> string"
  blog_writer :: "'g \<Rightarrow> string \<Rightarrow> 's \<Rightarrow> export_event list"

text \<open>
  The date parsing shared by both commands: a truthy \<^verbatim>\<open>date\<close> is parsed and a
  \<^verbatim>\<open>ValueError\<close> prints the message and returns; otherwise the date is now.
\<close>

definition parse_date ::
  "('s, 'g) collaborators \<Rightarrow> string option \<Rightarrow> export_event list + datetime" where
  "parse_date env date =
     (case given_str date of
        Some d \<Rightarrow>
          (case strptime env d of
             Some target_date \<Rightarrow> Inr target_date
           | None \<Rightarrow> Inl [Invalid_date_format])
      | None \<Rightarrow> Inr (now env))"

definition export_one ::
  "('s, 'g) collaborators \<Rightarrow> 's list \<Rightarrow> datetime \<Rightarrow> string option \<Rightarrow> string \<Rightarrow> export_event list" where
  "export_one env summaries target_date output fmt =
     (if fmt = ''markdown'' then
        (let content = export_markdown env summaries target_date;
             filename = (case given_str output of Some f \<Rightarrow> f
                         | None \<Rightarrow> ''digest_'' @ strftime env target_date @ ''.md'')
         in [Write_file filename content, Exported fmt filename])
      else if fmt = ''json'' then
        (let content = export_json env summaries target_date;
             filename = (case given_str output of Some f \<Rightarrow> f
                         | None \<Rightarrow> ''digest_'' @ strftime env target_date @ ''.json'')
         in [Write_file filename content, Exported fmt filename])
      else [Unsupported_format fmt])"

definition export ::
  "('s, 'g) collaborators \<Rightarrow> config_file \<Rightarrow> string option \<Rightarrow> string list \<Rightarrow> string option
     \<Rightarrow> export_event list" where
  "export env config_file date format output =
     (case load_config config_file of
        Inl out \<Rightarrow> map Export_config out
      | Inr config \<Rightarrow>
          (case parse_date env date of
             Inl out \<Rightarrow> out
           | Inr target_date \<Rightarrow>
               (let formats = (if format \<noteq> [] then format
                               else (case export_format config of Some fs \<Rightarrow> fs
                                     | None \<Rightarrow> [''markdown'']));
                    summaries = get_summaries_by_date env target_date
                in [Get_summaries_by_date target_date]
                   @ (if summaries = [] then [No_summaries_found target_date]
                      else [Exporting (length summaries) target_date]
                           @ concat (map (export_one env summaries target_date output) formats)))))"

definition write_cmd ::
  "('s, 'g) collaborators \<Rightarrow> config_file \<Rightarrow> string \<Rightarrow> string option \<Rightarrow> 'g \<Rightarrow> export_event list" where
  "write_cmd env config_file topic date target_grade =
     (case load_config config_file of
        Inl out \<Rightarrow> map Export_config out
      | Inr config \<Rightarrow>
          (case parse_date env date of
             Inl out \<Rightarrow> out
           | Inr target_date \<Rightarrow>
               [Get_summaries_by_date target_date]
               @ (case get_summaries_by_date env target_date of
                    [] \<Rightarrow> [No_summaries_found target_date, Run_digest_first]
                  | primary_summary # others \<Rightarrow>
                      [Generating_blog_post topic,
                       Using_summaries (length (primary_summary # others)) target_date]
                      @ blog_writer env target_grade topic primary_summary)))"

text \<open>An event that touches the store or the file system.\<close>

fun is_effect :: "export_event \<Rightarrow> bool" where
  "is_effect (Get_summaries_by_date d) = True"
| "is_effect (Write_file f c) = True"
| "is_effect e = False"

section \<open>The schema migration\<close>

text \<open>
  The episodes table that \<^verbatim>\<open>src/p3/migrate_db.py\<close> alters: its column names and its
  rows. A row is an \<^typ>\<open>episode\<close>; the field of a column that the table does not have
  yet is not observable through the table. The database is \<open>None\<close> when it has no
  table named \<^verbatim>\<open>episodes\<close>. As in the data model, the status of a row is a text value.
\<close>

record episodes_table =
  columns :: "string list"
  table_rows :: "episode list"

datatype sql_error = Duplicate_column string | No_such_column string | No_such_table

datatype migrate_line = Migrating | Added string | Completed | Migration_error sql_error

text \<open>
  \<^verbatim>\<open>ALTER TABLE episodes ADD COLUMN c ...\<close>: the column is appended and every
  existing row gets the column's default; adding a column twice is an error.
\<close>

definition add_column ::
  "string \<Rightarrow> (episode \<Rightarrow> episode) \<Rightarrow> episodes_table \<Rightarrow> sql_error + episodes_table" where
  "add_column c fill t =
     (if c \<in> set (columns t) then Inl (Duplicate_column c)
      else Inr (t\<lparr>columns := columns t @ [c], table_rows := map fill (table_rows t)\<rparr>))"

text \<open>
  \<^verbatim>\<open>UPDATE episodes SET status = 'downloaded' WHERE status NOT IN (...)\<close>.
\<close>

definition update_stuck :: "episodes_table \<Rightarrow> sql_error + episodes_table" where
  "update_stuck t =
     (if ''status'' \<notin> set (columns t) then Inl (No_such_column ''status'')
      else Inr (t\<lparr>table_rows :=
                  map (\<lambda>e. if status e \<notin> set [''downloaded'', ''transcribed'', ''processed'', ''failed'']
                           then e\<lparr>status := ''downloaded''\<rparr> else e)
                      (table_rows t)\<rparr>))"

text \<open>
  One conditional \<^verbatim>\<open>ALTER TABLE\<close> of the migration: skipped when the column is among
  the existing ones, printed when done. The state carries the lines printed so far and
  the table; each statement takes effect as it is executed, so a later failure keeps the
  columns added before it.
\<close>

definition add_if_missing ::
  "string list \<Rightarrow> string \<Rightarrow> (episode \<Rightarrow> episode) \<Rightarrow> migrate_line list \<times> episodes_table
     \<Rightarrow> (migrate_line list \<times> sql_error \<times> episodes_table) + (migrate_line list \<times> episodes_table)" where
  "add_if_missing existing_columns c fill st =
     (case st of (out, t) \<Rightarrow>
        if c \<notin> set existing_columns then
          (case add_column c fill t of
             Inl err \<Rightarrow> Inl (out, err, t)
           | Inr t' \<Rightarrow> Inr (out @ [Added c], t'))
        else Inr (out, t))"

definition migrate_database ::
  "episodes_table option \<Rightarrow> migrate_line list \<times> bool \<times> episodes_table option" where
  "migrate_database db =
     (case db of
        None \<Rightarrow> ([Migrating, Migration_error No_such_table], False, None)
      | Some t \<Rightarrow>
          (let existing_columns =
                 filter (\<lambda>c. c \<in> set [''error_count'', ''last_error'', ''error_timestamp''])
                        (columns t)
           in case add_if_missing existing_columns ''error_count''
                     (\<lambda>e. e\<lparr>error_count := 0\<rparr>) ([Migrating], t) of
                Inl (out, err, t') \<Rightarrow> (out @ [Migration_error err], False, Some t')
              | Inr st1 \<Rightarrow>
           (case add_if_missing existing_columns ''last_error''
                     (\<lambda>e. e\<lparr>last_error := None\<rparr>) st1 of
                Inl (out, err, t') \<Rightarrow> (out @ [Migration_error err], False, Some t')
              | Inr st2 \<Rightarrow>
           (case add_if_missing existing_columns ''error_timestamp''
                     (\<lambda>e. e\<lparr>error_timestamp := None\<rparr>) st2 of
                Inl (out, err, t') \<Rightarrow> (out @ [Migration_error err], False, Some t')
              | Inr (out, t3) \<Rightarrow>
           (case update_stuck t3 of
                Inl err \<Rightarrow> (out @ [Migration_error err], False, Some t3)
              | Inr t4 \<Rightarrow> (out @ [Completed], True, Some t4))))))"

section \<open>Worked examples\<close>















definition no_config :: config where
  "no_config = \<lparr>export_format = None\<rparr>"


text \<open>
  Collaborators used in the examples: the only date that parses is
  \<^verbatim>\<open>2024-01-05\<close>, now is noon of the day after, and every date has one summary.
\<close>

definition jan5 :: datetime where
  "jan5 = \<lparr>year = 2024, month = 1, day = 5, seconds_of_day = 0\<rparr>"

definition jan6_noon :: datetime where
  "jan6_noon = \<lparr>year = 2024, month = 1, day = 6, seconds_of_day = 43200\<rparr>"

definition example_env :: "(string, nat) collaborators" where
  "example_env =
     \<lparr>strptime = (\<lambda>s. if s = ''2024-01-05'' then Some jan5 else None),
      now = jan6_noon,
      strftime = (\<lambda>d. if d = jan5 then ''2024-01-05'' else ''2024-01-06''),
      get_summaries_by_date = (\<lambda>d. [''summary of Pilot'']),
      export_markdown = (\<lambda>ss d. ''# Digest''),
      export_json = (\<lambda>ss d. ''{}''),
      blog_writer = (\<lambda>g topic s. [])\<rparr>"


section \<open>Auxiliary notions\<close>


definition marked :: "episode \<Rightarrow> episode" where
  "marked e = e\<lparr>status := ''processed''\<rparr>"

definition untouched_or_marked :: "episode \<Rightarrow> episode \<Rightarrow> bool" where
  "untouched_or_marked e e' \<longleftrightarrow> e' = e \<or> e' = e\<lparr>status := ''processed''\<rparr>"



text \<open>
  What the migration amounts to: the error-tracking columns the table lacks, in the order
  the migration adds them; a row with the defaults of the columns added; a row with its
  status normalised.
\<close>

definition missing_columns :: "episodes_table \<Rightarrow> string list" where
  "missing_columns t =
     filter (\<lambda>c. c \<notin> set (columns t)) [''error_count'', ''last_error'', ''error_timestamp'']"

definition fill_missing :: "episodes_table \<Rightarrow> episode \<Rightarrow> episode" where
  "fill_missing t e =
     (let e1 = (if ''error_count'' \<in> set (columns t) then e else e\<lparr>error_count := 0\<rparr>);
          e2 = (if ''last_error'' \<in> set (columns t) then e1 else e1\<lparr>last_error := None\<rparr>)
      in if ''error_timestamp'' \<in> set (columns t) then e2 else e2\<lparr>error_timestamp := None\<rparr>)"

definition normalize_status :: "episode \<Rightarrow> episode" where
  "normalize_status e =
     (if status e \<in> set valid_statuses then e else e\<lparr>status := ''downloaded''\<rparr>)"

section \<open>Lemmas about the store operations\<close>











section \<open>Retry\<close>









section \<open>Mark as processed\<close>

lemma episodes_mark:
  "episodes (mark_episode_as_processed db i r)
   = map (\<lambda>e. if ep_id e = i then marked e else e) (episodes db)"
  by (simp add: mark_episode_as_processed_def on_episode_def marked_def)

lemma mark_loop_eq:
  "mark_loop r eps (out, db) =
     (out @ map (\<lambda>ep. Marked_title (title ep)) eps,
      foldl (\<lambda>d ep. mark_episode_as_processed d (ep_id ep) r) db eps)"
  by (induction eps arbitrary: out db) simp_all

lemma episodes_foldl_mark:
  "episodes (foldl (\<lambda>d ep. mark_episode_as_processed d (ep_id ep) r) db eps)
   = map (\<lambda>e. if ep_id e \<in> ep_id ` set eps then marked e else e) (episodes db)"
proof (induction eps arbitrary: db)
  case Nil
  show ?case by simp
next
  case (Cons ep eps)
  have "episodes (foldl (\<lambda>d ep. mark_episode_as_processed d (ep_id ep) r) db (ep # eps))
        = map (\<lambda>e. if ep_id e \<in> ep_id ` set eps then marked e else e)
              (episodes (mark_episode_as_processed db (ep_id ep) r))"
    by (simp add: Cons.IH)
  also have "\<dots> = map (\<lambda>e. if ep_id e \<in> ep_id ` set (ep # eps) then marked e else e) (episodes db)"
    by (simp add: episodes_mark marked_def cong: map_cong)
  finally show ?case .
qed

lemma all2_map_marked:
  "list_all2 untouched_or_marked xs (map (\<lambda>e. if Q e then marked e else e) xs)"
  by (induction xs) (simp_all add: untouched_or_marked_def marked_def)

lemma mark_processed_episodes:
  "\<exists>Q. episodes (snd (mark_processed db episode_id podcast reason))
       = map (\<lambda>e. if Q e then marked e else e) (episodes db)"
proof (cases "given_int episode_id")
  case (Some i)
  show ?thesis
  proof (cases "get_episode_by_id db i")
    case None
    have "episodes (snd (mark_processed db episode_id podcast reason))
          = map (\<lambda>e. if False then marked e else e) (episodes db)"
      using Some None by (simp add: mark_processed_def)
    then show ?thesis by (rule exI[where x="\<lambda>_. False"])
  next
    case (Some ep)
    have "episodes (snd (mark_processed db episode_id podcast reason))
          = map (\<lambda>e. if ep_id e = i then marked e else e) (episodes db)"
      using \<open>given_int episode_id = Some i\<close> Some by (simp add: mark_processed_def episodes_mark)
    then show ?thesis by (rule exI[where x="\<lambda>e. ep_id e = i"])
  qed
next
  case None
  note gi = None
  show ?thesis
  proof (cases "given_str podcast")
    case None
    have "episodes (snd (mark_processed db episode_id podcast reason))
          = map (\<lambda>e. if False then marked e else e) (episodes db)"
      using gi None by (simp add: mark_processed_def)
    then show ?thesis by (rule exI[where x="\<lambda>_. False"])
  next
    case (Some p)
    let ?sel = "filter (\<lambda>e. sublist (lower p) (lower (podcast_title e))) (get_error_episodes db)"
    show ?thesis
    proof (cases "?sel = []")
      case True
      have "episodes (snd (mark_processed db episode_id podcast reason))
            = map (\<lambda>e. if False then marked e else e) (episodes db)"
        using gi Some True by (simp add: mark_processed_def)
      then show ?thesis by (rule exI[where x="\<lambda>_. False"])
    next
      case False
      have "episodes (snd (mark_processed db episode_id podcast reason))
            = map (\<lambda>e. if ep_id e \<in> ep_id ` set ?sel then marked e else e) (episodes db)"
        using gi Some False
        by (simp add: mark_processed_def mark_loop_eq episodes_foldl_mark Let_def)
      then show ?thesis by (rule exI[where x="\<lambda>e. ep_id e \<in> ep_id ` set ?sel"])
    qed
  qed
qed

text \<open>
  C4 (frame of force-mark-processed). Whatever the selector and the reason,
  \<^verbatim>\<open>mark_processed\<close> leaves every episode either as it was or as it was with status
  \<^verbatim>\<open>'processed'\<close>; the error counts, last errors and error timestamps of the table are
  those from before, so the reason is not written to \<^verbatim>\<open>last_error\<close>.
\<close>

theorem mark_processed_frame:
  "list_all2 (\<lambda>e e'. e' = e \<or> e' = e\<lparr>status := ''processed''\<rparr>)
     (episodes db) (episodes (snd (mark_processed db episode_id podcast reason)))
   \<and> map error_count (episodes (snd (mark_processed db episode_id podcast reason)))
       = map error_count (episodes db)
   \<and> map last_error (episodes (snd (mark_processed db episode_id podcast reason)))
       = map last_error (episodes db)
   \<and> map error_timestamp (episodes (snd (mark_processed db episode_id podcast reason)))
       = map error_timestamp (episodes db)"
proof -
  obtain Q where q: "episodes (snd (mark_processed db episode_id podcast reason))
       = map (\<lambda>e. if Q e then marked e else e) (episodes db)"
    using mark_processed_episodes by blast
  have "list_all2 untouched_or_marked (episodes db) (map (\<lambda>e. if Q e then marked e else e) (episodes db))"
    by (rule all2_map_marked)
  then have a: "list_all2 (\<lambda>e e'. e' = e \<or> e' = e\<lparr>status := ''processed''\<rparr>)
     (episodes db) (episodes (snd (mark_processed db episode_id podcast reason)))"
    unfolding q untouched_or_marked_def .
  have b: "map error_count (map (\<lambda>e. if Q e then marked e else e) (episodes db)) = map error_count (episodes db)"
    by (simp add: marked_def)
  have c: "map last_error (map (\<lambda>e. if Q e then marked e else e) (episodes db)) = map last_error (episodes db)"
    by (simp add: marked_def)
  have d: "map error_timestamp (map (\<lambda>e. if Q e then marked e else e) (episodes db)) = map error_timestamp (episodes db)"
    by (simp add: marked_def)
  show ?thesis using a b c d unfolding q by blast
qed



section \<open>Digest\<close>




















section \<open>Migration\<close>

lemma migrate_with_status:
  assumes "''status'' \<in> set (columns t)"
  shows "migrate_database (Some t) =
           (Migrating # map Added (missing_columns t) @ [Completed], True,
            Some \<lparr>columns = columns t @ missing_columns t,
                  table_rows = map (normalize_status \<circ> fill_missing t) (table_rows t)\<rparr>)"
  using assms
  by (simp add: migrate_database_def add_if_missing_def add_column_def update_stuck_def
      missing_columns_def fill_missing_def normalize_status_def valid_statuses_def Let_def comp_def
      cong: map_cong)

lemma migrate_without_status:
  assumes "''status'' \<notin> set (columns t)"
  shows "migrate_database (Some t) =
           (Migrating # map Added (missing_columns t) @ [Migration_error (No_such_column ''status'')],
            False,
            Some \<lparr>columns = columns t @ missing_columns t,
                  table_rows = map (fill_missing t) (table_rows t)\<rparr>)"
  using assms
  by (simp add: migrate_database_def add_if_missing_def add_column_def update_stuck_def
      missing_columns_def fill_missing_def Let_def comp_def cong: map_cong)



lemma missing_after:
  "missing_columns \<lparr>columns = columns t @ missing_columns t, table_rows = rows\<rparr> = []"
  by (simp add: missing_columns_def)

lemma status_column_after:
  "''status'' \<in> set (columns t @ missing_columns t) \<longleftrightarrow> ''status'' \<in> set (columns t)"
  by (auto simp add: missing_columns_def)

lemma fill_nothing:
  assumes "missing_columns t = []"
  shows "fill_missing t e = e"
proof -
  have "''error_count'' \<in> set (columns t)" "''last_error'' \<in> set (columns t)"
       "''error_timestamp'' \<in> set (columns t)"
    using assms by (simp_all add: missing_columns_def split: if_splits)
  then show ?thesis by (simp add: fill_missing_def)
qed

lemma normalize_idem: "normalize_status (normalize_status e) = normalize_status e"
  by (simp add: normalize_status_def valid_statuses_def)



text \<open>
  C10 (the migration is idempotent). Running \<^verbatim>\<open>migrate_database\<close> on the database that
  a first run left adds no column: it prints only the opening line and the closing line of
  the first run, returns what the first run returned, and leaves the table, schema and
  rows, as the first run left it. This holds for every database, also when the run fails.
\<close>

theorem migration_idempotent:
  "migrate_database (snd (snd (migrate_database db)))
   = ([Migrating, last (fst (migrate_database db))],
      fst (snd (migrate_database db)),
      snd (snd (migrate_database db)))"
proof (cases db)
  case None
  then show ?thesis by (simp add: migrate_database_def)
next
  case (Some t)
  show ?thesis
  proof (cases "''status'' \<in> set (columns t)")
    case True
    let ?t1 = "\<lparr>columns = columns t @ missing_columns t,
                table_rows = map (normalize_status \<circ> fill_missing t) (table_rows t)\<rparr>"
    have first: "migrate_database db =
        (Migrating # map Added (missing_columns t) @ [Completed], True, Some ?t1)"
      using Some migrate_with_status[OF True] by simp
    have st: "''status'' \<in> set (columns ?t1)"
      using True by simp
    have m: "missing_columns ?t1 = []"
      by (rule missing_after)
    have rows: "map (normalize_status \<circ> fill_missing ?t1) (table_rows ?t1) = table_rows ?t1"
      by (simp add: fill_nothing[OF m] normalize_idem)
    have "migrate_database (Some ?t1) = ([Migrating, Completed], True, Some ?t1)"
      using migrate_with_status[OF st] rows m by simp
    then show ?thesis by (simp add: first)
  next
    case False
    let ?t1 = "\<lparr>columns = columns t @ missing_columns t,
                table_rows = map (fill_missing t) (table_rows t)\<rparr>"
    have first: "migrate_database db =
        (Migrating # map Added (missing_columns t) @ [Migration_error (No_such_column ''status'')],
         False, Some ?t1)"
      using Some migrate_without_status[OF False] by simp
    have st: "''status'' \<notin> set (columns ?t1)"
      using False status_column_after[of t] by simp
    have m: "missing_columns ?t1 = []"
      by (rule missing_after)
    have rows: "map (fill_missing ?t1) (table_rows ?t1) = table_rows ?t1"
      by (simp add: fill_nothing[OF m])
    have "migrate_database (Some ?t1)
          = ([Migrating, Migration_error (No_such_column ''status'')], False, Some ?t1)"
      using migrate_without_status[OF st] rows m by simp
    then show ?thesis by (simp add: first)
  qed
qed

section \<open>Export and write\<close>

lemma parse_date_rejected:
  assumes "d \<noteq> []" and "strptime env d = None"
  shows "parse_date env (Some d) = Inl [Invalid_date_format]"
  using assms by (simp add: parse_date_def given_str_def)

lemma no_effect_config: "filter is_effect (map Export_config out) = []"
  by (induction out) simp_all

text \<open>
  C7 (a bad date is rejected before any effect). For a date string that is not empty and
  that \<^verbatim>\<open>datetime.strptime(date, '%Y-%m-%d')\<close> rejects, \<^verbatim>\<open>export\<close> and \<^verbatim>\<open>write\<close>
  do nothing beyond loading the configuration and printing the message about the date
  format: their traces hold no store query and no file write. The empty date string is
  not rejected, as the example after the theorem shows.
\<close>

theorem invalid_date_no_effects:
  assumes "d \<noteq> []" and "strptime env d = None"
  shows "export env config_file (Some d) format output
           = (case load_config config_file of
                Inl out \<Rightarrow> map Export_config out
              | Inr config \<Rightarrow> [Invalid_date_format])
         \<and> write_cmd env config_file topic (Some d) target_grade
           = (case load_config config_file of
                Inl out \<Rightarrow> map Export_config out
              | Inr config \<Rightarrow> [Invalid_date_format])
         \<and> filter is_effect (export env config_file (Some d) format output) = []
         \<and> filter is_effect (write_cmd env config_file topic (Some d) target_grade) = []"
proof -
  have e: "export env config_file (Some d) format output
           = (case load_config config_file of
                Inl out \<Rightarrow> map Export_config out
              | Inr config \<Rightarrow> [Invalid_date_format])"
    by (simp add: export_def parse_date_rejected[OF assms] split: sum.splits)
  have w: "write_cmd env config_file topic (Some d) target_grade
           = (case load_config config_file of
                Inl out \<Rightarrow> map Export_config out
              | Inr config \<Rightarrow> [Invalid_date_format])"
    by (simp add: write_cmd_def parse_date_rejected[OF assms] split: sum.splits)
  have n: "filter is_effect (case load_config config_file of
                Inl out \<Rightarrow> map Export_config out
              | Inr config \<Rightarrow> [Invalid_date_format]) = []"
    by (simp add: no_effect_config split: sum.splits)
  show ?thesis using e w n by simp
qed

theorem invalid_date_no_effects_witness:
  "export example_env (Loaded no_config) (Some ''05/01/2024'') [] None = [Invalid_date_format]
   \<and> write_cmd example_env (Loaded no_config) ''Trends'' (Some ''05/01/2024'') 91
       = [Invalid_date_format]
   \<and> filter is_effect (export example_env (Loaded no_config) (Some ''05/01/2024'') [] None) = []
   \<and> filter is_effect (write_cmd example_env (Loaded no_config) ''Trends'' (Some ''05/01/2024'') 91) = []"
proof -
  have a: "''05/01/2024'' \<noteq> []" by simp
  have b: "strptime example_env ''05/01/2024'' = None"
    by (simp add: example_env_def)
  show ?thesis
    using invalid_date_no_effects[OF a b, of "Loaded no_config" "[]" None "''Trends''" 91]
    by (simp add: load_config_def)
qed

text \<open>
  With \<^verbatim>\<open>--date ""\<close> the test \<^verbatim>\<open>if date:\<close> is false, the date is taken to be now,
  and both commands go on to query the store; \<^verbatim>\<open>export\<close> writes its file.
\<close>

theorem invalid_date_no_effects_counterexample:
  "strptime example_env [] = None
   \<and> export example_env (Loaded no_config) (Some []) [] None
       = [Get_summaries_by_date jan6_noon, Exporting 1 jan6_noon,
          Write_file ''digest_2024-01-06.md'' ''# Digest'',
          Exported ''markdown'' ''digest_2024-01-06.md'']
   \<and> write_cmd example_env (Loaded no_config) ''Trends'' (Some []) 91
       = [Get_summaries_by_date jan6_noon, Generating_blog_post ''Trends'',
          Using_summaries 1 jan6_noon]"
  by (simp add: example_env_def export_def write_cmd_def load_config_def parse_date_def
      given_str_def export_one_def no_config_def jan5_def jan6_noon_def Let_def)

end
